theory Spec2Isabelle
  imports Main
begin

section \<open>Python values used by the pipeline\<close>

text \<open>
  Python strings are modelled as \<^typ>\<open>string\<close>, one \<^typ>\<open>char\<close> per character, so
  \<open>length\<close> is Python's \<open>len\<close> for text whose code points are below 256. A dictionary
  key that may be missing is an \<^typ>\<open>'a option\<close> field; \<open>d.get(k, default)\<close> is
  \<open>dict_get\<close>.
\<close>

definition dict_get :: "'a option \<Rightarrow> 'a \<Rightarrow> 'a" where
  "dict_get v dflt = (case v of None \<Rightarrow> dflt | Some x \<Rightarrow> x)"

text \<open>\<open>s.startswith(p)\<close>.\<close>

definition startswith :: "string \<Rightarrow> string \<Rightarrow> bool" where
  "startswith s p = (take (length p) s = p)"

text \<open>
  \<open>str.isspace\<close> on one character: tab, line feed, vertical tab, form feed, carriage
  return, the four separators 28 to 31, space, NEL (133) and the no-break space (160).
\<close>

definition isspace :: "char \<Rightarrow> bool" where
  "isspace c = ((of_char c :: nat) \<in> {9, 10, 11, 12, 13, 28, 29, 30, 31, 32, 133, 160})"

text \<open>
  \<open>s.split()\<close> with no argument: the maximal runs of characters that are not whitespace,
  in order. \<open>cur\<close> is the run being read.
\<close>

fun split_loop :: "string \<Rightarrow> string \<Rightarrow> string list" where
  "split_loop cur [] = (if cur = [] then [] else [cur])"
| "split_loop cur (c # cs) =
     (if isspace c then (if cur = [] then split_loop [] cs else cur # split_loop [] cs)
      else split_loop (cur @ [c]) cs)"

definition str_split :: "string \<Rightarrow> string list" where
  "str_split s = split_loop [] s"

text \<open>\<open>sep.join(parts)\<close>.\<close>

fun str_join :: "string \<Rightarrow> string list \<Rightarrow> string" where
  "str_join sep [] = []"
| "str_join sep [p] = p"
| "str_join sep (p # q # ps) = p @ sep @ str_join sep (q # ps)"

text \<open>
  The slice \<open>xs[i:]\<close>: a negative start counts from the end, and a start outside the list
  is clamped.
\<close>

definition slice_from :: "int \<Rightarrow> 'a list \<Rightarrow> 'a list" where
  "slice_from i xs =
     (let n = int (length xs);
          j = (if i < 0 then max 0 (n + i) else min i n)
      in drop (nat j) xs)"

section \<open>SEO metadata: \<open>seo_optimizer.py\<close>\<close>

text \<open>
  The metadata dictionary, with the keys the validation and the pipeline read. A key the
  content service left out is \<open>None\<close>. \<open>thumbnail_text\<close> is the key the pipeline adds.
\<close>

record metadata =
  title :: "string option"
  description :: "string option"
  tags :: "string list option"
  hashtags :: "string list option"
  thumbnail_text :: "string option"

text \<open>
  The loop of \<open>_validate_metadata\<close> over \<open>metadata["hashtags"][:15]\<close>; \<open>acc\<close> is the
  list \<open>hashtags\<close> being appended to.
\<close>

fun hashtag_loop :: "string list \<Rightarrow> string list \<Rightarrow> string list" where
  "hashtag_loop [] acc = acc"
| "hashtag_loop (tag # rest) acc =
     hashtag_loop rest (acc @ [if \<not> startswith tag ''#'' then ''#'' @ tag else tag])"

text \<open>\<open>SEOOptimizer._validate_metadata\<close>, its four steps in the source's order.\<close>

definition validate_metadata :: "metadata \<Rightarrow> metadata" where
  "validate_metadata metadata0 =
     (let m1 = (if length (dict_get (title metadata0) []) > 60
                then metadata0\<lparr>title := Some (take 57 (dict_get (title metadata0) []) @ ''...'')\<rparr>
                else metadata0);
          m2 = (if length (dict_get (description m1) []) > 5000
                then m1\<lparr>description := Some (take 4997 (dict_get (description m1) []) @ ''...'')\<rparr>
                else m1);
          m3 = (case tags m2 of
                  None \<Rightarrow> m2
                | Some ts \<Rightarrow> m2\<lparr>tags := Some (take 30 ts)\<rparr>);
          m4 = (case hashtags m3 of
                  None \<Rightarrow> m3
                | Some hs \<Rightarrow> m3\<lparr>hashtags := Some (hashtag_loop (take 15 hs) [])\<rparr>)
      in m4)"

section \<open>Scripts: \<open>content_generator.py\<close>\<close>

record script_section =
  section_title :: "string option"
  content :: "string option"

record script =
  topic :: "string option"
  hook :: "string option"
  introduction :: "string option"
  main_content :: "script_section list option"
  conclusion :: "string option"

text \<open>The pause between two parts: two line feeds.\<close>

definition pause :: string where
  "pause = [CHR 0x0A, CHR 0x0A]"

text \<open>
  The loop of \<open>format_script_for_tts\<close> over the sections: each one appends its
  \<open>content\<close>, or the empty string when the key is missing.
\<close>

fun sections_loop :: "script_section list \<Rightarrow> string list \<Rightarrow> string list" where
  "sections_loop [] parts = parts"
| "sections_loop (s # rest) parts = sections_loop rest (parts @ [dict_get (content s) []])"

text \<open>\<open>ContentGenerator.format_script_for_tts\<close>.\<close>

definition format_script_for_tts :: "script \<Rightarrow> string" where
  "format_script_for_tts script_data =
     (let parts0 = [dict_get (hook script_data) [], dict_get (introduction script_data) []];
          parts1 = sections_loop (dict_get (main_content script_data) []) parts0;
          parts2 = parts1 @ [dict_get (conclusion script_data) []]
      in str_join pause parts2)"

text \<open>
  The flattening as the specification words it: hook, introduction, each section's
  content and the conclusion, in that order, the empty and the missing ones left out, the
  rest joined by blank lines.
\<close>

definition flatten_spec :: "script \<Rightarrow> string" where
  "flatten_spec script_data =
     str_join pause
       (filter (\<lambda>p. p \<noteq> [])
          ([dict_get (hook script_data) [], dict_get (introduction script_data) []]
           @ map (\<lambda>s. dict_get (content s) []) (dict_get (main_content script_data) [])
           @ [dict_get (conclusion script_data) []]))"

section \<open>The orchestrator: \<open>pipeline.py\<close>\<close>

subsection \<open>Data\<close>

type_synonym path = string

text \<open>A clock reading, in microseconds.\<close>

type_synonym time = int

text \<open>
  A raised exception (an instance of \<open>Exception\<close>): its class name and its message.
  \<open>str(e)\<close> is the message.
\<close>

datatype exn = Exn string string

fun exn_str :: "exn \<Rightarrow> string" where
  "exn_str (Exn cls msg) = msg"

text \<open>
  The dictionary \<open>upload_video\<close> returns: the keys \<open>status\<close>, \<open>error\<close>, \<open>video_id\<close>
  and \<open>video_url\<close> (the key \<open>title\<close>, a copy of the metadata's, is left out).
\<close>

record upload_result =
  upload_status :: "string option"
  upload_error :: "string option"
  video_id :: "string option"
  video_url :: "string option"

text \<open>
  The value stored under a stage name in \<open>results['stages']\<close>, one constructor for each
  dictionary the source stores:
  \<^item> \<open>ContentData d\<close> is \<open>{'status': 'success', 'data': script_data}\<close>;
  \<^item> \<open>SeoData m\<close> is \<open>{'status': 'success', 'data': metadata}\<close>;
  \<^item> \<open>PathData p\<close> is \<open>{'status': 'success', 'path': str(p)}\<close>;
  \<^item> \<open>AudioData p d\<close> is \<open>{'status': 'success', 'path': str(p), 'duration': d}\<close>;
  \<^item> \<open>UploadData r\<close> is the upload result \<open>r\<close> itself;
  \<^item> \<open>SkippedData\<close> is \<open>{'status': 'skipped'}\<close>;
  \<^item> \<open>EmailData\<close> is \<open>{'status': 'success'}\<close>.
\<close>

datatype stage_data =
    ContentData script
  | SeoData metadata
  | PathData path
  | AudioData path int
  | UploadData upload_result
  | SkippedData
  | EmailData

text \<open>\<open>stage_data.get('status')\<close>.\<close>

fun stage_status :: "stage_data \<Rightarrow> string option" where
  "stage_status (ContentData d) = Some ''success''"
| "stage_status (SeoData m) = Some ''success''"
| "stage_status (PathData p) = Some ''success''"
| "stage_status (AudioData p d) = Some ''success''"
| "stage_status (UploadData r) = upload_status r"
| "stage_status SkippedData = Some ''skipped''"
| "stage_status EmailData = Some ''success''"

text \<open>
  The dictionary \<open>results\<close>. \<open>stages\<close> keeps its keys in insertion order, as a Python
  dictionary does; \<open>end_time\<close>, \<open>duration_seconds\<close> and \<open>error\<close> are keys that are
  missing until they are assigned.
\<close>

record run_results =
  status :: string
  start_time :: time
  stages :: "(string \<times> stage_data) list"
  end_time :: "time option"
  duration_seconds :: "int option"
  error :: "string option"

text \<open>\<open>d[k] = v\<close> on an insertion-ordered dictionary.\<close>

fun dict_set :: "('k \<times> 'v) list \<Rightarrow> 'k \<Rightarrow> 'v \<Rightarrow> ('k \<times> 'v) list" where
  "dict_set [] k v = [(k, v)]"
| "dict_set ((k', v') # rest) k v =
     (if k' = k then (k, v) # rest else (k', v') # dict_set rest k v)"

text \<open>
  The collaborators and the clock, as the run meets them: what each call returns or
  raises (\<open>Inl\<close> the exception), for the arguments it is given. Every collaborator is
  called at most once in a run. \<open>render_thumbnail\<close> is \<open>ThumbnailCreator.create_thumbnail\<close>,
  \<open>render_video\<close> is \<open>VideoEditor.create_video\<close>, \<open>write_results\<close> is the file write of
  \<open>_save_results\<close>; \<open>now_start\<close> and \<open>now_end\<close> are the clock at the start of the run
  and at its end.
\<close>

record env =
  generate_script :: "string option \<Rightarrow> exn + script"
  save_script :: "script \<Rightarrow> exn + path"
  generate_metadata :: "script \<Rightarrow> exn + metadata"
  generate_thumbnail_text :: "metadata \<Rightarrow> exn + string"
  save_metadata :: "metadata \<Rightarrow> exn + path"
  render_thumbnail :: "string \<Rightarrow> string option \<Rightarrow> exn + path"
  create_full_audio :: "string \<Rightarrow> exn + (path \<times> int)"
  render_video :: "path \<Rightarrow> path \<Rightarrow> script \<Rightarrow> exn + path"
  upload_video :: "path \<Rightarrow> metadata \<Rightarrow> path \<Rightarrow> exn + upload_result"
  send_success_notification :: "upload_result \<Rightarrow> metadata \<Rightarrow> exn + bool"
  send_error_notification :: "string \<Rightarrow> string \<Rightarrow> exn + bool"
  write_results :: "run_results \<Rightarrow> exn + unit"
  now_start :: time
  now_end :: time

text \<open>The calls a run makes to its collaborators, in order, with their arguments.\<close>

datatype event =
    GenerateScript "string option"
  | SaveScript script
  | GenerateMetadata script
  | GenerateThumbnailText metadata
  | SaveMetadata metadata
  | CreateThumbnail string "string option"
  | CreateFullAudio string
  | CreateVideo path path script
  | UploadVideo path metadata path
  | SendSuccessNotification upload_result metadata
  | SendErrorNotification string string
  | SaveResults run_results

subsection \<open>The stage methods\<close>

text \<open>
  Each method returns the calls it made and its outcome. A method of the form
  \<open>try: ... except Exception as e: log; raise\<close> passes the exception on.
\<close>

definition generate_content :: "env \<Rightarrow> string option \<Rightarrow> event list \<times> (exn + script)" where
  "generate_content env topic' =
     (case generate_script env topic' of
        Inl e \<Rightarrow> ([GenerateScript topic'], Inl e)
      | Inr script_data \<Rightarrow>
          (case save_script env script_data of
             Inl e \<Rightarrow> ([GenerateScript topic', SaveScript script_data], Inl e)
           | Inr saved \<Rightarrow> ([GenerateScript topic', SaveScript script_data], Inr script_data)))"

definition generate_seo :: "env \<Rightarrow> script \<Rightarrow> event list \<times> (exn + metadata)" where
  "generate_seo env script_data =
     (case generate_metadata env script_data of
        Inl e \<Rightarrow> ([GenerateMetadata script_data], Inl e)
      | Inr metadata0 \<Rightarrow>
          (case generate_thumbnail_text env metadata0 of
             Inl e \<Rightarrow> ([GenerateMetadata script_data, GenerateThumbnailText metadata0], Inl e)
           | Inr text' \<Rightarrow>
               (let metadata1 = metadata0\<lparr>thumbnail_text := Some text'\<rparr>;
                    calls = [GenerateMetadata script_data, GenerateThumbnailText metadata0,
                             SaveMetadata metadata1]
                in case save_metadata env metadata1 of
                     Inl e \<Rightarrow> (calls, Inl e)
                   | Inr saved \<Rightarrow> (calls, Inr metadata1))))"

text \<open>The subtitle \<open>_create_thumbnail\<close> derives from the title (lines 173 and 174).\<close>

definition subtitle_of :: "metadata \<Rightarrow> string option" where
  "subtitle_of metadata' =
     (let title_words = str_split (dict_get (title metadata') [])
      in if length title_words > 3 then Some (str_join '' '' (slice_from (- 3) title_words))
         else None)"

text \<open>
  The subtitle as the specification words it: the title cut into its space-separated
  tokens (the maximal runs of characters other than the space), and the last 3 of them
  joined by single spaces when there are more than 3. \<open>space_loop\<close> is \<open>split_loop\<close>
  with the space as the only separator.
\<close>

fun space_loop :: "string \<Rightarrow> string \<Rightarrow> string list" where
  "space_loop cur [] = (if cur = [] then [] else [cur])"
| "space_loop cur (c # cs) =
     (if c = CHR '' '' then (if cur = [] then space_loop [] cs else cur # space_loop [] cs)
      else space_loop (cur @ [c]) cs)"

definition space_tokens :: "string \<Rightarrow> string list" where
  "space_tokens s = space_loop [] s"

definition subtitle_spec :: "string \<Rightarrow> string option" where
  "subtitle_spec t =
     (let tokens = space_tokens t
      in if length tokens > 3 then Some (str_join '' '' (rev (take 3 (rev tokens)))) else None)"

definition create_thumbnail :: "env \<Rightarrow> metadata \<Rightarrow> event list \<times> (exn + path)" where
  "create_thumbnail env metadata' =
     (let caption = dict_get (thumbnail_text metadata') (dict_get (title metadata') ''VIDEO'');
          subtitle = subtitle_of metadata'
      in ([CreateThumbnail caption subtitle], render_thumbnail env caption subtitle))"

definition generate_audio :: "env \<Rightarrow> script \<Rightarrow> event list \<times> (exn + (path \<times> int))" where
  "generate_audio env script_data =
     (let text' = format_script_for_tts script_data
      in ([CreateFullAudio text'], create_full_audio env text'))"

definition create_video :: "env \<Rightarrow> path \<Rightarrow> path \<Rightarrow> script \<Rightarrow> event list \<times> (exn + path)" where
  "create_video env audio_path thumbnail_path script_data =
     ([CreateVideo audio_path thumbnail_path script_data],
      render_video env audio_path thumbnail_path script_data)"

text \<open>
  \<open>_upload_to_youtube\<close> does not raise: an exception of the uploader becomes the
  dictionary \<open>{'status': 'error', 'error': str(e)}\<close>.
\<close>

definition upload_to_youtube ::
  "env \<Rightarrow> path \<Rightarrow> metadata \<Rightarrow> path \<Rightarrow> event list \<times> upload_result" where
  "upload_to_youtube env video_path metadata' thumbnail_path =
     (case upload_video env video_path metadata' thumbnail_path of
        Inr result \<Rightarrow> ([UploadVideo video_path metadata' thumbnail_path], result)
      | Inl e \<Rightarrow>
          ([UploadVideo video_path metadata' thumbnail_path],
           \<lparr>upload_status = Some ''error'', upload_error = Some (exn_str e),
            video_id = None, video_url = None\<rparr>))"

text \<open>
  \<open>_send_notification\<close> returns nothing: the notifier's answer is dropped and its
  exception is logged and swallowed.
\<close>

definition send_notification :: "env \<Rightarrow> upload_result \<Rightarrow> metadata \<Rightarrow> event list" where
  "send_notification env upload_result' metadata' =
     (case send_success_notification env upload_result' metadata' of
        Inr delivered \<Rightarrow> [SendSuccessNotification upload_result' metadata']
      | Inl e \<Rightarrow> [SendSuccessNotification upload_result' metadata'])"

text \<open>The loop of \<open>_get_failed_stage\<close> over \<open>stages.items()\<close>.\<close>

fun failed_stage_loop :: "(string \<times> stage_data) list \<Rightarrow> string" where
  "failed_stage_loop [] = ''Unknown''"
| "failed_stage_loop ((stage_name, stage_data') # rest) =
     (if stage_status stage_data' = Some ''error'' then stage_name else failed_stage_loop rest)"

definition get_failed_stage :: "run_results \<Rightarrow> string" where
  "get_failed_stage results = failed_stage_loop (stages results)"

text \<open>\<open>_save_results\<close>: a failed write is logged and swallowed.\<close>

definition save_results :: "env \<Rightarrow> run_results \<Rightarrow> event list" where
  "save_results env results =
     (case write_results env results of
        Inr written \<Rightarrow> [SaveResults results]
      | Inl e \<Rightarrow> [SaveResults results])"

subsection \<open>\<open>VideoPipeline.run\<close>\<close>

text \<open>
  Stages 6 and 7 (lines 94 to 106): the upload when \<open>upload\<close> is set, then the email
  when \<open>send_email\<close> is set and the upload result's status is \<open>'success'\<close>; otherwise the
  upload is recorded as skipped.
\<close>

definition run_upload ::
  "env \<Rightarrow> bool \<Rightarrow> bool \<Rightarrow> path \<Rightarrow> metadata \<Rightarrow> path \<Rightarrow> run_results
     \<Rightarrow> run_results \<times> event list" where
  "run_upload env upload send_email video_path metadata' thumbnail_path results =
     (if upload then
        (case upload_to_youtube env video_path metadata' thumbnail_path of
           (c6, upload_result') \<Rightarrow>
             (let results6 = results\<lparr>stages :=
                    dict_set (stages results) ''youtube_upload'' (UploadData upload_result')\<rparr>
              in if send_email \<and> upload_status upload_result' = Some ''success''
                 then (results6\<lparr>stages :=
                         dict_set (stages results6) ''email_notification'' EmailData\<rparr>,
                       c6 @ send_notification env upload_result' metadata')
                 else (results6, c6)))
      else
        (results\<lparr>stages := dict_set (stages results) ''youtube_upload'' SkippedData\<rparr>, []))"

text \<open>
  The body of the \<open>try\<close> (lines 68 to 124). It returns the dictionary \<open>results\<close> as it
  stands when the body ends, the calls made, and either the exception that left the body
  or the value returned.
\<close>

definition run_try ::
  "env \<Rightarrow> string option \<Rightarrow> bool \<Rightarrow> bool \<Rightarrow> run_results
     \<Rightarrow> (run_results \<times> event list) \<times> (exn + run_results)" where
  "run_try env topic' upload send_email results0 =
     (case generate_content env topic' of
        (c1, Inl e) \<Rightarrow> ((results0, c1), Inl e)
      | (c1, Inr script_data) \<Rightarrow>
     (let results1 = results0\<lparr>stages :=
            dict_set (stages results0) ''content_generation'' (ContentData script_data)\<rparr>
      in case generate_seo env script_data of
        (c2, Inl e) \<Rightarrow> ((results1, c1 @ c2), Inl e)
      | (c2, Inr metadata') \<Rightarrow>
     (let results2 = results1\<lparr>stages :=
            dict_set (stages results1) ''seo_optimization'' (SeoData metadata')\<rparr>
      in case create_thumbnail env metadata' of
        (c3, Inl e) \<Rightarrow> ((results2, c1 @ c2 @ c3), Inl e)
      | (c3, Inr thumbnail_path) \<Rightarrow>
     (let results3 = results2\<lparr>stages :=
            dict_set (stages results2) ''thumbnail_creation'' (PathData thumbnail_path)\<rparr>
      in case generate_audio env script_data of
        (c4, Inl e) \<Rightarrow> ((results3, c1 @ c2 @ c3 @ c4), Inl e)
      | (c4, Inr (audio_path, duration)) \<Rightarrow>
     (let results4 = results3\<lparr>stages :=
            dict_set (stages results3) ''audio_production'' (AudioData audio_path duration)\<rparr>
      in case create_video env audio_path thumbnail_path script_data of
        (c5, Inl e) \<Rightarrow> ((results4, c1 @ c2 @ c3 @ c4 @ c5), Inl e)
      | (c5, Inr video_path) \<Rightarrow>
     (let results5 = results4\<lparr>stages :=
            dict_set (stages results4) ''video_editing'' (PathData video_path)\<rparr>
      in case run_upload env upload send_email video_path metadata' thumbnail_path results5 of
        (results6, c6) \<Rightarrow>
     (let results7 = results6\<lparr>status := ''success'',
                               end_time := Some (now_end env),
                               duration_seconds := Some (now_end env - now_start env)\<rparr>;
          c7 = save_results env results7
      in ((results7, c1 @ c2 @ c3 @ c4 @ c5 @ c6 @ c7), Inr results7))))))))"

text \<open>
  \<open>VideoPipeline.run(topic, upload, send_email)\<close>: the calls made, and the dictionary
  returned or the exception raised to the caller. In the handler, the error notification
  sits in a \<open>try\<close> with a bare \<open>except: pass\<close>, so what the notifier returns or raises is
  dropped; the final \<open>raise\<close> raises the exception the handler caught.
\<close>

definition run ::
  "env \<Rightarrow> string option \<Rightarrow> bool \<Rightarrow> bool \<Rightarrow> event list \<times> (exn + run_results)" where
  "run env topic' upload send_email =
     (let results0 = \<lparr>status = ''running'', start_time = now_start env, stages = [],
                      end_time = None, duration_seconds = None, error = None\<rparr>
      in case run_try env topic' upload send_email results0 of
           ((results, calls), Inr returned) \<Rightarrow> (calls, Inr returned)
         | ((results, calls), Inl e) \<Rightarrow>
             (let results8 = results\<lparr>status := ''error'',
                                     error := Some (exn_str e),
                                     end_time := Some (now_end env)\<rparr>;
                  c8 = (if send_email then
                          (let stage = get_failed_stage results8
                           in case send_error_notification env (exn_str e) stage of
                                Inr delivered \<Rightarrow> [SendErrorNotification (exn_str e) stage]
                              | Inl e' \<Rightarrow> [SendErrorNotification (exn_str e) stage])
                        else []);
                  c9 = save_results env results8
              in (calls @ c8 @ c9, Inl e)))"

subsection \<open>Reading a run\<close>

text \<open>The stage names of a run record, in insertion order.\<close>

definition stage_names :: "run_results \<Rightarrow> string list" where
  "stage_names results = map fst (stages results)"

text \<open>The run records handed to \<open>_save_results\<close>, in order.\<close>

fun persisted :: "event list \<Rightarrow> run_results list" where
  "persisted [] = []"
| "persisted (SaveResults r # rest) = r # persisted rest"
| "persisted (other # rest) = persisted rest"


text \<open>The error notifications attempted: message and stage, in order.\<close>

fun error_notifications :: "event list \<Rightarrow> (string \<times> string) list" where
  "error_notifications [] = []"
| "error_notifications (SendErrorNotification msg stage # rest) =
     (msg, stage) # error_notifications rest"
| "error_notifications (other # rest) = error_notifications rest"

text \<open>The success notifications attempted.\<close>

fun success_notifications :: "event list \<Rightarrow> (upload_result \<times> metadata) list" where
  "success_notifications [] = []"
| "success_notifications (SendSuccessNotification r m # rest) =
     (r, m) # success_notifications rest"
| "success_notifications (other # rest) = success_notifications rest"

text \<open>
  Stages 1 to 5 on their own, each given what the stages before it returned, as \<open>run\<close>
  calls them: \<open>Inl (k, e)\<close> when stage \<open>k\<close> is the first to raise, with its exception
  \<open>e\<close>; \<open>Inr\<close> what the five stages returned when none raises (script, metadata,
  thumbnail path, audio path, audio duration, video path).
\<close>

definition stage_outcomes ::
  "env \<Rightarrow> string option
     \<Rightarrow> (nat \<times> exn) + (script \<times> metadata \<times> path \<times> path \<times> int \<times> path)" where
  "stage_outcomes env topic' =
     (case snd (generate_content env topic') of
        Inl e \<Rightarrow> Inl (1, e)
      | Inr script_data \<Rightarrow>
     (case snd (generate_seo env script_data) of
        Inl e \<Rightarrow> Inl (2, e)
      | Inr metadata' \<Rightarrow>
     (case snd (create_thumbnail env metadata') of
        Inl e \<Rightarrow> Inl (3, e)
      | Inr thumbnail_path \<Rightarrow>
     (case snd (generate_audio env script_data) of
        Inl e \<Rightarrow> Inl (4, e)
      | Inr (audio_path, duration) \<Rightarrow>
     (case snd (create_video env audio_path thumbnail_path script_data) of
        Inl e \<Rightarrow> Inl (5, e)
      | Inr video_path \<Rightarrow>
          Inr (script_data, metadata', thumbnail_path, audio_path, duration, video_path))))))"

text \<open>The names under which stages 1 to 7 are stored, in execution order.\<close>

definition stage_order :: "string list" where
  "stage_order = [''content_generation'', ''seo_optimization'', ''thumbnail_creation'',
     ''audio_production'', ''video_editing'', ''youtube_upload'', ''email_notification'']"

text \<open>The entries of stages 1 to 5 when all five have returned, in insertion order.\<close>

definition base_stages ::
  "script \<Rightarrow> metadata \<Rightarrow> path \<Rightarrow> path \<Rightarrow> int \<Rightarrow> path \<Rightarrow> (string \<times> stage_data) list" where
  "base_stages sd md tp ap d vp =
     [(''content_generation'', ContentData sd), (''seo_optimization'', SeoData md),
      (''thumbnail_creation'', PathData tp), (''audio_production'', AudioData ap d),
      (''video_editing'', PathData vp)]"

section \<open>Example inputs\<close>

definition example_script :: script where
  "example_script =
     \<lparr>topic = Some ''AI'', hook = Some ''Hi'', introduction = Some ''Intro'',
      main_content = Some [\<lparr>section_title = Some ''One'', content = Some ''Body''\<rparr>],
      conclusion = Some ''Bye''\<rparr>"

text \<open>A script whose hook is missing and whose only section is empty.\<close>

definition sparse_script :: script where
  "sparse_script =
     \<lparr>topic = Some ''AI'', hook = None, introduction = Some ''Intro'',
      main_content = Some [\<lparr>section_title = Some ''One'', content = Some []\<rparr>],
      conclusion = Some ''Bye''\<rparr>"

definition example_metadata :: metadata where
  "example_metadata =
     \<lparr>title = Some ''A B C D E'', description = Some ''About'', tags = Some [''ai''],
      hashtags = Some [''#ai''], thumbnail_text = None\<rparr>"

text \<open>Metadata over three limits: a title of 70 characters, 31 tags, 16 hashtags.\<close>

definition long_metadata :: metadata where
  "long_metadata =
     \<lparr>title = Some (replicate 70 CHR ''x''), description = Some ''About'',
      tags = Some (replicate 31 ''tag''), hashtags = Some (''tech'' # replicate 15 ''#ai''),
      thumbnail_text = None\<rparr>"

definition example_upload :: upload_result where
  "example_upload =
     \<lparr>upload_status = Some ''success'', upload_error = None, video_id = Some ''v1'',
      video_url = Some ''https://www.youtube.com/watch?v=v1''\<rparr>"

definition failed_upload :: upload_result where
  "failed_upload =
     \<lparr>upload_status = Some ''error'', upload_error = Some ''quota exceeded'',
      video_id = None, video_url = None\<rparr>"

text \<open>A run in which every collaborator returns and the email is delivered.\<close>

definition env_ok :: env where
  "env_ok =
     \<lparr>generate_script = (\<lambda>t. Inr example_script),
      save_script = (\<lambda>d. Inr ''script.json''),
      generate_metadata = (\<lambda>d. Inr example_metadata),
      generate_thumbnail_text = (\<lambda>m. Inr ''A B''),
      save_metadata = (\<lambda>m. Inr ''metadata.json''),
      render_thumbnail = (\<lambda>t s. Inr ''thumb.png''),
      create_full_audio = (\<lambda>t. Inr (''audio.mp3'', 300000)),
      render_video = (\<lambda>a t d. Inr ''video.mp4''),
      upload_video = (\<lambda>v m t. Inr example_upload),
      send_success_notification = (\<lambda>r m. Inr True),
      send_error_notification = (\<lambda>msg stage. Inr True),
      write_results = (\<lambda>r. Inr ()),
      now_start = 1000000,
      now_end = 9000000\<rparr>"

text \<open>The same run with the audio renderer raising \<open>RenderError("disk full")\<close>.\<close>

definition env_disk_full :: env where
  "env_disk_full =
     env_ok\<lparr>create_full_audio := (\<lambda>t. Inl (Exn ''RenderError'' ''disk full''))\<rparr>"

text \<open>The same run with the uploader returning a failure.\<close>

definition env_upload_fails :: env where
  "env_upload_fails = env_ok\<lparr>upload_video := (\<lambda>v m t. Inr failed_upload)\<rparr>"

text \<open>The same run with the email not delivered.\<close>

definition env_email_fails :: env where
  "env_email_fails = env_ok\<lparr>send_success_notification := (\<lambda>r m. Inr False)\<rparr>"

text \<open>
  A title whose first two words are separated by a tab.
\<close>

definition tab_title :: string where
  "tab_title = [CHR ''A'', CHR 0x09, CHR ''B'', CHR '' '', CHR ''C'', CHR '' '', CHR ''D'']"

text \<open>
  The run of \<open>env_ok\<close> with a thumbnail renderer whose answer shows the caption and the subtitle it was given.
\<close>

definition env_echo :: env where
  "env_echo =
     env_ok\<lparr>render_thumbnail := (\<lambda>caption subtitle. Inr (caption @ ''/'' @ dict_get subtitle ''none''))\<rparr>"


section \<open>Lemmas\<close>

subsection \<open>The flattening in closed form\<close>

lemma sections_loop_map: "sections_loop ss parts = parts @ map (\<lambda>s. dict_get (content s) []) ss"
  by (induction ss arbitrary: parts) auto

lemma str_join_Cons: "str_join sep (p # ps) = p @ concat (map (\<lambda>q. sep @ q) ps)"
  by (induction sep ps arbitrary: p rule: str_join.induct) auto

lemma format_closed:
  "format_script_for_tts sd =
     dict_get (hook sd) [] @ pause @ dict_get (introduction sd) []
       @ concat (map (\<lambda>s. pause @ dict_get (content s) []) (dict_get (main_content sd) []))
       @ pause @ dict_get (conclusion sd) []"
  by (simp add: format_script_for_tts_def sections_loop_map str_join_Cons comp_def)

lemma length_pauses:
  "length (concat (map (\<lambda>s. pause @ f s) xs)) = sum_list (map (\<lambda>s. length (f s)) xs) + 2 * length xs"
  by (induction xs) (auto simp: pause_def)

lemma format_length:
  "length (format_script_for_tts sd) =
     length (dict_get (hook sd) []) + length (dict_get (introduction sd) [])
       + sum_list (map (\<lambda>s. length (dict_get (content s) [])) (dict_get (main_content sd) []))
       + length (dict_get (conclusion sd) [])
       + 2 * (2 + length (dict_get (main_content sd) []))"
  by (simp add: format_closed length_pauses) (simp add: pause_def)

subsection \<open>What the stage methods call\<close>

lemma persisted_append: "persisted (a @ b) = persisted a @ persisted b"
  by (induction a rule: persisted.induct) auto
lemma error_notifications_append: "error_notifications (a @ b) = error_notifications a @ error_notifications b"
  by (induction a rule: error_notifications.induct) auto
lemma success_notifications_append: "success_notifications (a @ b) = success_notifications a @ success_notifications b"
  by (induction a rule: success_notifications.induct) auto

lemmas obs_append = persisted_append error_notifications_append success_notifications_append

lemma generate_content_calls [simp]:
  "persisted (fst (generate_content env t)) = []"
  "error_notifications (fst (generate_content env t)) = []"
  "success_notifications (fst (generate_content env t)) = []"
  by (auto simp: generate_content_def split: sum.splits)
lemma generate_seo_calls [simp]:
  "persisted (fst (generate_seo env d)) = []"
  "error_notifications (fst (generate_seo env d)) = []"
  "success_notifications (fst (generate_seo env d)) = []"
  by (auto simp: generate_seo_def Let_def split: sum.splits)
lemma create_thumbnail_calls [simp]:
  "persisted (fst (create_thumbnail env m)) = []"
  "error_notifications (fst (create_thumbnail env m)) = []"
  "success_notifications (fst (create_thumbnail env m)) = []"
  by (auto simp: create_thumbnail_def Let_def split: sum.splits)
lemma generate_audio_calls [simp]:
  "persisted (fst (generate_audio env d)) = []"
  "error_notifications (fst (generate_audio env d)) = []"
  "success_notifications (fst (generate_audio env d)) = []"
  by (auto simp: generate_audio_def Let_def split: sum.splits)
lemma create_video_calls [simp]:
  "persisted (fst (create_video env a tp d)) = []"
  "error_notifications (fst (create_video env a tp d)) = []"
  "success_notifications (fst (create_video env a tp d)) = []"
  by (auto simp: create_video_def Let_def split: sum.splits)

subsection \<open>The body of the try\<close>

lemma run_try_raises:
  assumes "stage_outcomes env t = Inl (k, e)" and "stages r0 = []"
  shows "snd (run_try env t u s r0) = Inl e"
    and "fst (fst (run_try env t u s r0)) = r0\<lparr>stages := stages (fst (fst (run_try env t u s r0)))\<rparr>"
    and "persisted (snd (fst (run_try env t u s r0))) = []"
    and "error_notifications (snd (fst (run_try env t u s r0))) = []"
    and "success_notifications (snd (fst (run_try env t u s r0))) = []"
    and "map fst (stages (fst (fst (run_try env t u s r0)))) = take (k - 1) stage_order"
    and "\<forall>x \<in> set (stages (fst (fst (run_try env t u s r0)))). stage_status (snd x) = Some ''success''"
    and "1 \<le> k \<and> k \<le> 5"
  using assms
  by (auto simp: stage_outcomes_def run_try_def Let_def case_prod_beta stage_order_def obs_append
      split: sum.splits)

lemma run_try_returns:
  assumes "stage_outcomes env t = Inr (sd, md, tp, ap, d, vp)" and "stages r0 = []"
  shows "\<exists>pre r6 c6 r7. run_try env t u s r0 = ((r7, pre @ c6 @ [SaveResults r7]), Inr r7)
     \<and> run_upload env u s vp md tp (r0\<lparr>stages := base_stages sd md tp ap d vp\<rparr>) = (r6, c6)
     \<and> r7 = r6\<lparr>status := ''success'', end_time := Some (now_end env),
                duration_seconds := Some (now_end env - now_start env)\<rparr>
     \<and> persisted pre = [] \<and> error_notifications pre = [] \<and> success_notifications pre = []"
proof -
  let ?pre = "fst (generate_content env t) @ fst (generate_seo env sd) @ fst (create_thumbnail env md)
    @ fst (generate_audio env sd) @ fst (create_video env ap tp sd)"
  let ?u = "run_upload env u s vp md tp (r0\<lparr>stages := base_stages sd md tp ap d vp\<rparr>)"
  let ?r7 = "(fst ?u)\<lparr>status := ''success'', end_time := Some (now_end env),
                duration_seconds := Some (now_end env - now_start env)\<rparr>"
  have "run_try env t u s r0 = ((?r7, ?pre @ snd ?u @ [SaveResults ?r7]), Inr ?r7)"
    using assms
    by (auto simp: stage_outcomes_def run_try_def Let_def case_prod_beta base_stages_def
        save_results_def split: sum.splits)
  moreover have "?u = (fst ?u, snd ?u)" by simp
  moreover have "persisted ?pre = [] \<and> error_notifications ?pre = [] \<and> success_notifications ?pre = []"
    by (simp add: obs_append)
  ultimately show ?thesis by blast
qed

lemma run_upload_cases:
  "run_upload env u s vp md tp r = (r6, c6) \<Longrightarrow> stages r = base_stages sd md' tp' ap d vp' \<Longrightarrow>
   persisted c6 = [] \<and> error_notifications c6 = [] \<and>
   status r6 = status r \<and> error r6 = error r \<and> start_time r6 = start_time r \<and>
   end_time r6 = end_time r \<and> duration_seconds r6 = duration_seconds r \<and>
   (if u then
      (let res = snd (upload_to_youtube env vp md tp) in
       if s \<and> upload_status res = Some ''success''
       then stages r6 = stages r @ [(''youtube_upload'', UploadData res), (''email_notification'', EmailData)]
            \<and> success_notifications c6 = [(res, md)]
       else stages r6 = stages r @ [(''youtube_upload'', UploadData res)]
            \<and> success_notifications c6 = [])
    else stages r6 = stages r @ [(''youtube_upload'', SkippedData)] \<and> success_notifications c6 = [] \<and> c6 = [])"
  by (auto simp: run_upload_def Let_def base_stages_def upload_to_youtube_def send_notification_def obs_append
      split: if_splits sum.splits prod.splits)


subsection \<open>The run as a whole\<close>

lemma failed_stage_loop_first:
  "failed_stage_loop stg =
     (case filter (\<lambda>x. stage_status (snd x) = Some ''error'') stg of
        [] \<Rightarrow> ''Unknown'' | x # rest \<Rightarrow> fst x)"
  by (induction stg rule: failed_stage_loop.induct) auto

lemma failed_stage_loop_unknown:
  "\<forall>x \<in> set stg. stage_status (snd x) = Some ''success'' \<Longrightarrow> failed_stage_loop stg = ''Unknown''"
  by (induction stg rule: failed_stage_loop.induct) auto

lemma run_raises:
  assumes "stage_outcomes env t = Inl (k, e)"
  shows "\<exists>pre r. run env t u s =
            (pre @ (if s then [SendErrorNotification (exn_str e) ''Unknown''] else []) @ [SaveResults r], Inl e)
     \<and> persisted pre = [] \<and> error_notifications pre = [] \<and> success_notifications pre = []
     \<and> status r = ''error'' \<and> error r = Some (exn_str e) \<and> end_time r = Some (now_end env)
     \<and> duration_seconds r = None \<and> start_time r = now_start env
     \<and> stage_names r = take (k - 1) stage_order
     \<and> (\<forall>x \<in> set (stages r). stage_status (snd x) = Some ''success'')
     \<and> 1 \<le> k \<and> k \<le> 5"
proof -
  let ?r0 = "\<lparr>status = ''running'', start_time = now_start env, stages = [],
                      end_time = None, duration_seconds = None, error = None\<rparr>"
  let ?T = "run_try env t u s ?r0"
  let ?r8 = "(fst (fst ?T))\<lparr>status := ''error'', error := Some (exn_str e), end_time := Some (now_end env)\<rparr>"
  have st: "stages ?r0 = []" by simp
  note f = run_try_raises(1-7) [OF assms st, of u s] run_try_raises(8) [OF assms st]
  have T: "?T = ((fst (fst ?T), snd (fst ?T)), Inl e)"
    using f(1) by (metis prod.collapse)
  have unk: "get_failed_stage ?r8 = ''Unknown''"
    using f(7) by (simp add: get_failed_stage_def failed_stage_loop_unknown)
  have "run env t u s =
     (snd (fst ?T) @ (if s then [SendErrorNotification (exn_str e) ''Unknown''] else []) @ [SaveResults ?r8], Inl e)"
    unfolding run_def Let_def
    apply (subst T)
    apply (simp only: prod.case sum.case)
    using unk apply (cases s; simp add: save_results_def split: sum.splits)
    done
  moreover have "status ?r8 = ''error'' \<and> error ?r8 = Some (exn_str e) \<and> end_time ?r8 = Some (now_end env)"
    by simp
  moreover have "duration_seconds ?r8 = None \<and> start_time ?r8 = now_start env"
    using arg_cong [OF f(2), of start_time] arg_cong [OF f(2), of duration_seconds] by simp
  moreover have "stage_names ?r8 = take (k - 1) stage_order"
    using f(6) by (simp add: stage_names_def)
  moreover have "\<forall>x \<in> set (stages ?r8). stage_status (snd x) = Some ''success''"
    using f(7) by simp
  ultimately show ?thesis using f(3,4,5,8) by blast
qed

lemma run_returns:
  assumes "stage_outcomes env t = Inr (sd, md, tp, ap, d, vp)"
  shows "\<exists>pre r6 c6 r. run env t u s = (pre @ c6 @ [SaveResults r], Inr r)
     \<and> run_upload env u s vp md tp
          \<lparr>status = ''running'', start_time = now_start env, stages = base_stages sd md tp ap d vp,
           end_time = None, duration_seconds = None, error = None\<rparr> = (r6, c6)
     \<and> r = r6\<lparr>status := ''success'', end_time := Some (now_end env),
                duration_seconds := Some (now_end env - now_start env)\<rparr>
     \<and> persisted pre = [] \<and> error_notifications pre = [] \<and> success_notifications pre = []"
proof -
  let ?r0 = "\<lparr>status = ''running'', start_time = now_start env, stages = [],
                      end_time = None, duration_seconds = None, error = None\<rparr>"
  have st: "stages ?r0 = []" by simp
  from run_try_returns [OF assms st, of u s]
  obtain pre r6 c6 r7 where
    T: "run_try env t u s ?r0 = ((r7, pre @ c6 @ [SaveResults r7]), Inr r7)"
    and U: "run_upload env u s vp md tp (?r0\<lparr>stages := base_stages sd md tp ap d vp\<rparr>) = (r6, c6)"
    and R: "r7 = r6\<lparr>status := ''success'', end_time := Some (now_end env),
                duration_seconds := Some (now_end env - now_start env)\<rparr>"
    and P: "persisted pre = [] \<and> error_notifications pre = [] \<and> success_notifications pre = []"
    by blast
  have "run env t u s = (pre @ c6 @ [SaveResults r7], Inr r7)"
    by (simp add: run_def T)
  with U R P show ?thesis by auto
qed


lemma run_persisted_raises:
  assumes "stage_outcomes env t = Inl (k, e)"
  shows "\<exists>r. persisted (fst (run env t u s)) = [r] \<and> snd (run env t u s) = Inl e
     \<and> last (fst (run env t u s)) = SaveResults r
     \<and> error_notifications (fst (run env t u s)) = (if s then [(exn_str e, ''Unknown'')] else [])
     \<and> success_notifications (fst (run env t u s)) = []
     \<and> status r = ''error'' \<and> error r = Some (exn_str e) \<and> end_time r = Some (now_end env)
     \<and> duration_seconds r = None \<and> start_time r = now_start env
     \<and> stage_names r = take (k - 1) stage_order
     \<and> (\<forall>x \<in> set (stages r). stage_status (snd x) = Some ''success'')
     \<and> 1 \<le> k \<and> k \<le> 5"
proof -
  from run_raises [OF assms, of u s] obtain pre r where
    R: "run env t u s =
            (pre @ (if s then [SendErrorNotification (exn_str e) ''Unknown''] else []) @ [SaveResults r], Inl e)"
    and P: "persisted pre = []" "error_notifications pre = []" "success_notifications pre = []"
    and F: "status r = ''error'' \<and> error r = Some (exn_str e) \<and> end_time r = Some (now_end env)
     \<and> duration_seconds r = None \<and> start_time r = now_start env
     \<and> stage_names r = take (k - 1) stage_order
     \<and> (\<forall>x \<in> set (stages r). stage_status (snd x) = Some ''success'')
     \<and> 1 \<le> k \<and> k \<le> 5"
    by blast
  have "persisted (fst (run env t u s)) = [r]"
    by (simp add: R obs_append P)
  moreover have "snd (run env t u s) = Inl e" by (simp add: R)
  moreover have "last (fst (run env t u s)) = SaveResults r" by (simp add: R)
  moreover have "error_notifications (fst (run env t u s)) = (if s then [(exn_str e, ''Unknown'')] else [])"
    by (simp add: R obs_append P)
  moreover have "success_notifications (fst (run env t u s)) = []"
    by (simp add: R obs_append P)
  ultimately show ?thesis using F by blast
qed

lemma run_persisted_returns:
  assumes "stage_outcomes env t = Inr (sd, md, tp, ap, d, vp)"
  shows "\<exists>r. persisted (fst (run env t u s)) = [r] \<and> snd (run env t u s) = Inr r
     \<and> last (fst (run env t u s)) = SaveResults r
     \<and> error_notifications (fst (run env t u s)) = []
     \<and> status r = ''success'' \<and> error r = None \<and> end_time r = Some (now_end env)
     \<and> duration_seconds r = Some (now_end env - now_start env) \<and> start_time r = now_start env
     \<and> (if u then
          (if s \<and> upload_status (snd (upload_to_youtube env vp md tp)) = Some ''success''
           then stages r = base_stages sd md tp ap d vp
                  @ [(''youtube_upload'', UploadData (snd (upload_to_youtube env vp md tp))),
                     (''email_notification'', EmailData)]
              \<and> success_notifications (fst (run env t u s)) = [(snd (upload_to_youtube env vp md tp), md)]
           else stages r = base_stages sd md tp ap d vp
                  @ [(''youtube_upload'', UploadData (snd (upload_to_youtube env vp md tp)))]
              \<and> success_notifications (fst (run env t u s)) = [])
        else stages r = base_stages sd md tp ap d vp @ [(''youtube_upload'', SkippedData)]
              \<and> success_notifications (fst (run env t u s)) = [])"
proof -
  let ?r5 = "\<lparr>status = ''running'', start_time = now_start env, stages = base_stages sd md tp ap d vp,
           end_time = None, duration_seconds = None, error = None\<rparr>"
  from run_returns [OF assms, of u s] obtain pre r6 c6 r where
    R: "run env t u s = (pre @ c6 @ [SaveResults r], Inr r)"
    and U: "run_upload env u s vp md tp ?r5 = (r6, c6)"
    and E: "r = r6\<lparr>status := ''success'', end_time := Some (now_end env),
                duration_seconds := Some (now_end env - now_start env)\<rparr>"
    and P: "persisted pre = []" "error_notifications pre = []" "success_notifications pre = []"
    by blast
  have st: "stages ?r5 = base_stages sd md tp ap d vp" by simp
  note C = run_upload_cases [OF U st]
  have 1: "persisted (fst (run env t u s)) = [r]"
    using C by (simp add: R obs_append P)
  have 2: "snd (run env t u s) = Inr r" "last (fst (run env t u s)) = SaveResults r"
    by (simp_all add: R)
  have 3: "error_notifications (fst (run env t u s)) = []"
    using C by (simp add: R obs_append P)
  have 4: "status r = ''success'' \<and> error r = None \<and> end_time r = Some (now_end env)
     \<and> duration_seconds r = Some (now_end env - now_start env) \<and> start_time r = now_start env"
    using C by (simp add: E)
  have 5: "success_notifications (fst (run env t u s)) = success_notifications c6"
    by (simp add: R obs_append P)
  have 6: "stages r = stages r6" by (simp add: E)
  show ?thesis
    apply (rule exI [of _ r])
    apply (simp only: 1 2 3 4 5 6)
    using C apply (simp add: Let_def split: if_splits)
    done
qed

subsection \<open>The example runs\<close>

lemma stage_outcomes_env_ok:
  "stage_outcomes env_ok (Some ''AI'') =
     Inr (example_script, example_metadata\<lparr>thumbnail_text := Some ''A B''\<rparr>, ''thumb.png'',
          ''audio.mp3'', 300000, ''video.mp4'')"
  by (simp add: stage_outcomes_def env_ok_def generate_content_def generate_seo_def
      create_thumbnail_def generate_audio_def create_video_def Let_def)

lemma stage_outcomes_env_disk_full:
  "stage_outcomes env_disk_full (Some ''AI'') = Inl (4, Exn ''RenderError'' ''disk full'')"
  by (simp add: stage_outcomes_def env_disk_full_def env_ok_def generate_content_def generate_seo_def
      create_thumbnail_def generate_audio_def create_video_def Let_def)

lemma stage_outcomes_env_upload_fails:
  "stage_outcomes env_upload_fails (Some ''AI'') =
     Inr (example_script, example_metadata\<lparr>thumbnail_text := Some ''A B''\<rparr>, ''thumb.png'',
          ''audio.mp3'', 300000, ''video.mp4'')"
  by (simp add: stage_outcomes_def env_upload_fails_def env_ok_def generate_content_def generate_seo_def
      create_thumbnail_def generate_audio_def create_video_def Let_def)

lemma stage_outcomes_env_email_fails:
  "stage_outcomes env_email_fails (Some ''AI'') =
     Inr (example_script, example_metadata\<lparr>thumbnail_text := Some ''A B''\<rparr>, ''thumb.png'',
          ''audio.mp3'', 300000, ''video.mp4'')"
  by (simp add: stage_outcomes_def env_email_fails_def env_ok_def generate_content_def generate_seo_def
      create_thumbnail_def generate_audio_def create_video_def Let_def)

lemma stage_outcomes_cases:
  "(\<exists>k e. stage_outcomes env t = Inl (k, e)) \<or> (\<exists>sd md tp ap d vp. stage_outcomes env t = Inr (sd, md, tp, ap, d, vp))"
  by (cases "stage_outcomes env t") auto


lemma no_late_stage:
  "k \<le> 5 \<Longrightarrow> ''youtube_upload'' \<notin> set (take (k - 1) stage_order)
     \<and> ''email_notification'' \<notin> set (take (k - 1) stage_order)"
proof -
  assume "k \<le> 5"
  then have "set (take (k - 1) stage_order) \<subseteq> set (take 4 stage_order)"
    by (intro set_take_subset_set_take) simp
  then show ?thesis by (auto simp: stage_order_def)
qed


subsection \<open>Hashtags, tokens and slices\<close>

lemma hashtag_loop_map:
  "hashtag_loop xs acc = acc @ map (\<lambda>tag. if startswith tag ''#'' then tag else ''#'' @ tag) xs"
  by (induction xs arbitrary: acc) auto

lemma startswith_hash: "startswith (CHR ''#'' # tag) ''#''"
  by (simp add: startswith_def)

lemma split_loop_word:
  "\<forall>c \<in> set w. \<not> isspace c \<Longrightarrow> split_loop cur (w @ rest) = split_loop (cur @ w) rest"
proof (induction w arbitrary: cur)
  case Nil
  show ?case by simp
next
  case (Cons a w)
  have a: "\<not> isspace a" and w: "\<forall>c \<in> set w. \<not> isspace c"
    using Cons.prems by simp_all
  have "split_loop cur ((a # w) @ rest) = split_loop (cur @ [a]) (w @ rest)"
    using a by simp
  also have "\<dots> = split_loop ((cur @ [a]) @ w) rest"
    by (rule Cons.IH [OF w])
  finally show ?case by simp
qed

lemma split_loop_tokens:
  "x \<in> set (split_loop cur s) \<Longrightarrow> \<forall>c \<in> set cur. \<not> isspace c \<Longrightarrow>
     x \<noteq> [] \<and> (\<forall>c \<in> set x. \<not> isspace c)"
proof (induction s arbitrary: cur)
  case Nil
  then show ?case by (simp split: if_splits)
next
  case (Cons c cs)
  show ?case
  proof (cases "isspace c")
    case True
    have e: "\<forall>c \<in> set ([]::string). \<not> isspace c" by simp
    show ?thesis
    proof (cases "cur = []")
      case True
      with \<open>isspace c\<close> Cons.prems(1) have "x \<in> set (split_loop [] cs)" by simp
      from Cons.IH [OF this e] show ?thesis .
    next
      case False
      with \<open>isspace c\<close> Cons.prems(1) have "x = cur \<or> x \<in> set (split_loop [] cs)" by simp
      then show ?thesis
      proof
        assume "x = cur"
        with False Cons.prems(2) show ?thesis by simp
      next
        assume "x \<in> set (split_loop [] cs)"
        from Cons.IH [OF this e] show ?thesis .
      qed
    qed
  next
    case False
    with Cons.prems(1) have m: "x \<in> set (split_loop (cur @ [c]) cs)" by simp
    have "\<forall>d \<in> set (cur @ [c]). \<not> isspace d" using False Cons.prems(2) by simp
    from Cons.IH [OF m this] show ?thesis .
  qed
qed

lemma str_split_tokens:
  "x \<in> set (str_split s) \<Longrightarrow> x \<noteq> [] \<and> (\<forall>c \<in> set x. \<not> isspace c)"
  using split_loop_tokens [of x "[]" s] by (simp add: str_split_def)

lemma isspace_space: "isspace CHR '' ''"
  by (simp add: isspace_def)

lemma split_loop_space:
  "cur \<noteq> [] \<Longrightarrow> split_loop cur (CHR '' '' # rest) = cur # split_loop [] rest"
  by (simp add: isspace_space)

lemma str_split_three:
  assumes "a \<noteq> [] \<and> (\<forall>x \<in> set a. \<not> isspace x)" "b \<noteq> [] \<and> (\<forall>x \<in> set b. \<not> isspace x)"
    "c \<noteq> [] \<and> (\<forall>x \<in> set c. \<not> isspace x)"
  shows "str_split (a @ '' '' @ b @ '' '' @ c) = [a, b, c]"
proof -
  have "split_loop [] (a @ (CHR '' '' # b @ CHR '' '' # c)) = split_loop a (CHR '' '' # b @ CHR '' '' # c)"
    using assms(1) split_loop_word [of a "[]"] by simp
  also have "\<dots> = a # split_loop [] (b @ (CHR '' '' # c))"
    using assms(1) by (simp add: isspace_space)
  also have "split_loop [] (b @ (CHR '' '' # c)) = split_loop b (CHR '' '' # c)"
    using assms(2) split_loop_word [of b "[]"] by simp
  also have "\<dots> = b # split_loop [] (c @ [])"
    using assms(2) by (simp add: isspace_space)
  also have "split_loop [] (c @ []) = split_loop c []"
    using assms(3) split_loop_word [of c "[]" "[]"] by simp
  also have "\<dots> = [c]" using assms(3) by simp
  finally show ?thesis by (simp add: str_split_def)
qed

lemma length_three: "length zs = 3 \<Longrightarrow> \<exists>a b c. zs = [a, b, c]"
  by (auto simp: length_Suc_conv numeral_3_eq_3)

lemma last_three:
  "3 < length xs \<Longrightarrow> \<exists>a b c. rev (take 3 (rev xs)) = [a, b, c] \<and> slice_from (- 3) xs = [a, b, c]
     \<and> a \<in> set xs \<and> b \<in> set xs \<and> c \<in> set xs"
proof -
  assume l: "3 < length xs"
  have e: "slice_from (- 3) xs = rev (take 3 (rev xs))"
    using l by (simp add: slice_from_def rev_take nat_diff_distrib')
  have "length (rev (take 3 (rev xs))) = 3" using l by simp
  from length_three [OF this] obtain a b c where abc: "rev (take 3 (rev xs)) = [a, b, c]"
    by blast
  have "set [a, b, c] \<subseteq> set xs"
    unfolding abc [symmetric] using set_take_subset [of 3 "rev xs"] by simp
  with e abc show ?thesis by simp
qed

lemma str_split_ABCDE: "str_split ''A B C D E'' = [''A'', ''B'', ''C'', ''D'', ''E'']"
  by (simp add: str_split_def isspace_def)

lemma str_split_ABC: "str_split ''A B C'' = [''A'', ''B'', ''C'']"
  by (simp add: str_split_def isspace_def)

lemma split_loop_spaces_only:
  "\<forall>c \<in> set s. isspace c \<longrightarrow> c = CHR '' '' \<Longrightarrow> split_loop cur s = space_loop cur s"
proof (induction s arbitrary: cur)
  case Nil
  show ?case by simp
next
  case (Cons c cs)
  have t: "\<forall>d \<in> set cs. isspace d \<longrightarrow> d = CHR '' ''" using Cons.prems by simp
  have c: "isspace c = (c = CHR '' '')" using Cons.prems isspace_space by auto
  show ?case
    by (simp only: split_loop.simps space_loop.simps c Cons.IH [OF t])
qed

lemma slice_last_three: "3 < length xs \<Longrightarrow> slice_from (- 3) xs = rev (take 3 (rev xs))"
  by (simp add: slice_from_def rev_take nat_diff_distrib')

lemma subtitle_spaces_only:
  "\<forall>c \<in> set (dict_get (title md) []). isspace c \<longrightarrow> c = CHR '' '' \<Longrightarrow>
     subtitle_of md = subtitle_spec (dict_get (title md) [])"
  by (simp add: subtitle_of_def subtitle_spec_def str_split_def space_tokens_def
      split_loop_spaces_only slice_last_three Let_def)

lemma str_split_tab_title: "str_split tab_title = [''A'', ''B'', ''C'', ''D'']"
  by (simp add: str_split_def tab_title_def isspace_def)

lemma space_tokens_tab_title: "space_tokens tab_title = [[CHR ''A'', CHR 0x09, CHR ''B''], ''C'', ''D'']"
  by (simp add: space_tokens_def tab_title_def)

lemma example_title:
  "dict_get (title example_metadata) [] = ''A B C D E''"
  "dict_get (thumbnail_text example_metadata) (dict_get (title example_metadata) ''VIDEO'') = ''A B C D E''"
  "example_metadata\<lparr>title := Some ''A B C D E''\<rparr> = example_metadata"
  by (simp_all add: example_metadata_def dict_get_def)

lemma short_title:
  "dict_get (title (example_metadata\<lparr>title := Some ''A B C''\<rparr>)) [] = ''A B C''"
  "dict_get (thumbnail_text (example_metadata\<lparr>title := Some ''A B C''\<rparr>))
     (dict_get (title (example_metadata\<lparr>title := Some ''A B C''\<rparr>)) ''VIDEO'') = ''A B C''"
  by (simp_all add: example_metadata_def dict_get_def)

lemma example_title_spaces:
  "\<forall>c \<in> set ''A B C D E''. isspace c \<longrightarrow> c = CHR '' ''"
  by (simp add: isspace_def)

lemma env_echo_renders:
  "render_thumbnail env_echo ''A B C D E'' (Some ''C D E'') = Inr ''A B C D E/C D E''"
  "render_thumbnail env_echo ''A B C'' None = Inr ''A B C/none''"
  by (simp_all add: env_echo_def dict_get_def)

lemma format_nonempty:
  "dict_get (hook sd) [] \<noteq> [] \<Longrightarrow> dict_get (introduction sd) [] \<noteq> [] \<Longrightarrow>
   (\<forall>s \<in> set (dict_get (main_content sd) []). dict_get (content s) [] \<noteq> []) \<Longrightarrow>
   dict_get (conclusion sd) [] \<noteq> [] \<Longrightarrow> format_script_for_tts sd = flatten_spec sd"
  by (simp add: format_script_for_tts_def flatten_spec_def sections_loop_map filter_map comp_def filter_id_conv)

subsection \<open>The run does not depend on what the notifier answers\<close>

lemma stage_methods_error_notifier:
  "generate_content (env\<lparr>send_error_notification := f\<rparr>) t = generate_content env t"
  "generate_seo (env\<lparr>send_error_notification := f\<rparr>) sd = generate_seo env sd"
  "create_thumbnail (env\<lparr>send_error_notification := f\<rparr>) md = create_thumbnail env md"
  "generate_audio (env\<lparr>send_error_notification := f\<rparr>) sd = generate_audio env sd"
  "create_video (env\<lparr>send_error_notification := f\<rparr>) ap tp sd = create_video env ap tp sd"
  "upload_to_youtube (env\<lparr>send_error_notification := f\<rparr>) vp md tp = upload_to_youtube env vp md tp"
  "send_notification (env\<lparr>send_error_notification := f\<rparr>) ur md = send_notification env ur md"
  "save_results (env\<lparr>send_error_notification := f\<rparr>) r = save_results env r"
  by (simp_all add: generate_content_def generate_seo_def create_thumbnail_def generate_audio_def
      create_video_def upload_to_youtube_def send_notification_def save_results_def
      cong: sum.case_cong)

lemma run_upload_error_notifier:
  "run_upload (env\<lparr>send_error_notification := f\<rparr>) u s vp md tp r = run_upload env u s vp md tp r"
  by (simp add: run_upload_def stage_methods_error_notifier Let_def
      cong: prod.case_cong if_cong)

lemma run_try_error_notifier:
  "run_try (env\<lparr>send_error_notification := f\<rparr>) t u s r0 = run_try env t u s r0"
  by (simp add: run_try_def run_upload_error_notifier stage_methods_error_notifier
      cong: sum.case_cong prod.case_cong)

lemma run_error_notifier:
  "run (env\<lparr>send_error_notification := f\<rparr>) t u s = run env t u s"
  by (simp add: run_def run_try_error_notifier stage_methods_error_notifier Let_def
      cong: sum.case_cong prod.case_cong if_cong split: sum.splits)

lemma stage_methods_success_notifier:
  "generate_content (env\<lparr>send_success_notification := f\<rparr>) t = generate_content env t"
  "generate_seo (env\<lparr>send_success_notification := f\<rparr>) sd = generate_seo env sd"
  "create_thumbnail (env\<lparr>send_success_notification := f\<rparr>) md = create_thumbnail env md"
  "generate_audio (env\<lparr>send_success_notification := f\<rparr>) sd = generate_audio env sd"
  "create_video (env\<lparr>send_success_notification := f\<rparr>) ap tp sd = create_video env ap tp sd"
  "upload_to_youtube (env\<lparr>send_success_notification := f\<rparr>) vp md tp = upload_to_youtube env vp md tp"
  "send_notification (env\<lparr>send_success_notification := f\<rparr>) ur md = send_notification env ur md"
  "save_results (env\<lparr>send_success_notification := f\<rparr>) r = save_results env r"
  by (simp_all add: generate_content_def generate_seo_def create_thumbnail_def generate_audio_def
      create_video_def upload_to_youtube_def send_notification_def save_results_def
      cong: sum.case_cong split: sum.splits)

lemma run_upload_success_notifier:
  "run_upload (env\<lparr>send_success_notification := f\<rparr>) u s vp md tp r = run_upload env u s vp md tp r"
  by (simp add: run_upload_def stage_methods_success_notifier Let_def
      cong: prod.case_cong if_cong)

lemma run_try_success_notifier:
  "run_try (env\<lparr>send_success_notification := f\<rparr>) t u s r0 = run_try env t u s r0"
  by (simp add: run_try_def run_upload_success_notifier stage_methods_success_notifier
      cong: sum.case_cong prod.case_cong)

lemma run_success_notifier:
  "run (env\<lparr>send_success_notification := f\<rparr>) t u s = run env t u s"
  by (simp add: run_def run_try_success_notifier stage_methods_success_notifier Let_def
      cong: sum.case_cong prod.case_cong if_cong split: sum.splits)

section \<open>The claims about the content functions\<close>

text \<open>
  The flattening of a script whose hook is missing and whose only section is empty:
  the missing hook and the empty section each leave their separator behind, so the text
  starts with a pause and has two pauses in a row, and it differs from the text the
  specification describes.
\<close>

theorem flatten_counterexample:
  "format_script_for_tts sparse_script = pause @ ''Intro'' @ pause @ pause @ ''Bye''
   \<and> flatten_spec sparse_script = ''Intro'' @ pause @ ''Bye''
   \<and> format_script_for_tts sparse_script \<noteq> flatten_spec sparse_script"
  by (simp add: format_script_for_tts_def flatten_spec_def sparse_script_def dict_get_def pause_def)

text \<open>
  Claim C4, amended. \<open>format_script_for_tts\<close> is a function of the script alone. Its
  output is the hook, the introduction, each section's content in list order and the
  conclusion, in that order, with a pause (two line feeds) before every part but the
  first. A missing field counts as the empty string, and an empty part is not skipped:
  it keeps its pause, so the output always holds two pauses plus one for each section.
  When the hook, the introduction, every section's content and the conclusion are all
  non-empty, the output is the text the specification describes.
\<close>

theorem format_script_for_tts_parts:
  "format_script_for_tts sd =
     dict_get (hook sd) [] @ pause @ dict_get (introduction sd) []
       @ concat (map (\<lambda>s. pause @ dict_get (content s) []) (dict_get (main_content sd) []))
       @ pause @ dict_get (conclusion sd) []
   \<and> length (format_script_for_tts sd) =
     length (dict_get (hook sd) []) + length (dict_get (introduction sd) [])
       + sum_list (map (\<lambda>s. length (dict_get (content s) [])) (dict_get (main_content sd) []))
       + length (dict_get (conclusion sd) [])
       + 2 * (2 + length (dict_get (main_content sd) []))
   \<and> (dict_get (hook sd) [] \<noteq> [] \<and> dict_get (introduction sd) [] \<noteq> []
        \<and> (\<forall>s \<in> set (dict_get (main_content sd) []). dict_get (content s) [] \<noteq> [])
        \<and> dict_get (conclusion sd) [] \<noteq> []
      \<longrightarrow> format_script_for_tts sd = flatten_spec sd)"
  using format_closed [of sd] format_length [of sd] format_nonempty [of sd] by blast

text \<open>
  The theorem at a script whose parts are all present and non-empty.
\<close>

theorem format_script_for_tts_parts_witness:
  "dict_get (hook example_script) [] = ''Hi'' \<and> dict_get (introduction example_script) [] = ''Intro''
   \<and> map content (dict_get (main_content example_script) []) = [Some ''Body'']
   \<and> dict_get (conclusion example_script) [] = ''Bye''
   \<and> format_script_for_tts example_script = flatten_spec example_script
   \<and> format_script_for_tts example_script
       = ''Hi'' @ pause @ ''Intro'' @ pause @ ''Body'' @ pause @ ''Bye''"
proof -
  have g: "dict_get (hook example_script) [] = ''Hi'' \<and> dict_get (introduction example_script) [] = ''Intro''
   \<and> map content (dict_get (main_content example_script) []) = [Some ''Body'']
   \<and> dict_get (conclusion example_script) [] = ''Bye''"
    by (simp add: example_script_def dict_get_def)
  have h: "dict_get (hook example_script) [] \<noteq> [] \<and> dict_get (introduction example_script) [] \<noteq> []
   \<and> (\<forall>s \<in> set (dict_get (main_content example_script) []). dict_get (content s) [] \<noteq> [])
   \<and> dict_get (conclusion example_script) [] \<noteq> []"
    by (simp add: example_script_def dict_get_def)
  from format_script_for_tts_parts [of example_script] h
  have "format_script_for_tts example_script = flatten_spec example_script" by blast
  moreover from format_script_for_tts_parts [of example_script]
  have "format_script_for_tts example_script
       = ''Hi'' @ pause @ ''Intro'' @ pause @ ''Body'' @ pause @ ''Bye''"
    by (simp add: example_script_def dict_get_def)
  ultimately show ?thesis using g by blast
qed

text \<open>
  A title whose first two words are separated by a tab: it has three space-separated
  tokens, so the specification's wording gives no subtitle, and the code passes the
  subtitle \<open>"B C D"\<close> to the renderer.
\<close>

theorem tab_title_counterexample:
  "subtitle_of (example_metadata\<lparr>title := Some tab_title\<rparr>) = Some ''B C D''
   \<and> subtitle_spec tab_title = None
   \<and> create_thumbnail env_echo (example_metadata\<lparr>title := Some tab_title\<rparr>)
       = ([CreateThumbnail tab_title (Some ''B C D'')], Inr (tab_title @ ''/B C D''))"
  by (simp add: subtitle_of_def subtitle_spec_def str_split_tab_title space_tokens_tab_title
      dict_get_def slice_from_def create_thumbnail_def env_echo_def example_metadata_def Let_def)

text \<open>
  Claim C5, amended. \<open>_create_thumbnail\<close> calls the thumbnail renderer once, with the
  caption and the subtitle, and returns what the renderer answers. The tokens of the
  title are those of \<open>str.split()\<close>: the words separated by whitespace of any kind
  (space, tab, line feed and the like), a missing title counting as empty. When there
  are more than 3 tokens the subtitle passed is the last 3 tokens joined by single
  spaces, and splitting that subtitle gives those 3 tokens back; otherwise no subtitle
  is passed. When the only whitespace in the title is the space, this is the subtitle of
  the specification's wording. The title \<open>"A B C D E"\<close> gives the subtitle \<open>"C D E"\<close>
  and the title \<open>"A B C"\<close> gives none.
\<close>

theorem thumbnail_subtitle:
  "create_thumbnail env md =
     ([CreateThumbnail (dict_get (thumbnail_text md) (dict_get (title md) ''VIDEO''))
         (subtitle_of md)],
      render_thumbnail env (dict_get (thumbnail_text md) (dict_get (title md) ''VIDEO''))
         (subtitle_of md))
   \<and> (3 < length (str_split (dict_get (title md) [])) \<longrightarrow>
      (\<exists>a b c. rev (take 3 (rev (str_split (dict_get (title md) [])))) = [a, b, c]
         \<and> subtitle_of md = Some (a @ '' '' @ b @ '' '' @ c)
         \<and> str_split (a @ '' '' @ b @ '' '' @ c) = [a, b, c]))
   \<and> (length (str_split (dict_get (title md) [])) \<le> 3 \<longrightarrow> subtitle_of md = None)
   \<and> ((\<forall>c \<in> set (dict_get (title md) []). isspace c \<longrightarrow> c = CHR '' '') \<longrightarrow>
        subtitle_of md = subtitle_spec (dict_get (title md) []))
   \<and> subtitle_of (md\<lparr>title := Some ''A B C D E''\<rparr>) = Some ''C D E''
   \<and> subtitle_of (md\<lparr>title := Some ''A B C''\<rparr>) = None"
proof -
  let ?ws = "str_split (dict_get (title md) [])"
  have 0: "create_thumbnail env md =
     ([CreateThumbnail (dict_get (thumbnail_text md) (dict_get (title md) ''VIDEO''))
         (subtitle_of md)],
      render_thumbnail env (dict_get (thumbnail_text md) (dict_get (title md) ''VIDEO''))
         (subtitle_of md))"
    by (simp add: create_thumbnail_def Let_def)
  have 1: "3 < length ?ws \<longrightarrow>
      (\<exists>a b c. rev (take 3 (rev ?ws)) = [a, b, c]
         \<and> subtitle_of md = Some (a @ '' '' @ b @ '' '' @ c)
         \<and> str_split (a @ '' '' @ b @ '' '' @ c) = [a, b, c])"
  proof
    assume l: "3 < length ?ws"
    from last_three [OF l] obtain a b c where
      abc: "rev (take 3 (rev ?ws)) = [a, b, c]" "slice_from (- 3) ?ws = [a, b, c]"
        "a \<in> set ?ws" "b \<in> set ?ws" "c \<in> set ?ws"
      by blast
    have s: "str_split (a @ '' '' @ b @ '' '' @ c) = [a, b, c]"
      using abc(3-5) by (intro str_split_three str_split_tokens)
    have "subtitle_of md = Some (a @ '' '' @ b @ '' '' @ c)"
      using l abc(2) by (simp add: subtitle_of_def Let_def)
    with abc(1) s show "\<exists>a b c. rev (take 3 (rev ?ws)) = [a, b, c]
         \<and> subtitle_of md = Some (a @ '' '' @ b @ '' '' @ c)
         \<and> str_split (a @ '' '' @ b @ '' '' @ c) = [a, b, c]"
      by blast
  qed
  have 2: "length ?ws \<le> 3 \<longrightarrow> subtitle_of md = None"
    by (simp add: subtitle_of_def Let_def)
  have 3: "subtitle_of (md\<lparr>title := Some ''A B C D E''\<rparr>) = Some ''C D E''"
    by (simp add: subtitle_of_def dict_get_def str_split_ABCDE slice_from_def)
  have 4: "subtitle_of (md\<lparr>title := Some ''A B C''\<rparr>) = None"
    by (simp add: subtitle_of_def dict_get_def str_split_ABC)
  from 0 1 2 3 4 subtitle_spaces_only [of md] show ?thesis by blast
qed

text \<open>
  The theorem at a title of five tokens and at a title of three, with a renderer that
  shows what it was given.
\<close>

theorem thumbnail_subtitle_witness:
  "3 < length (str_split (dict_get (title example_metadata) []))
   \<and> create_thumbnail env_echo example_metadata
       = ([CreateThumbnail ''A B C D E'' (Some ''C D E'')], Inr ''A B C D E/C D E'')
   \<and> subtitle_spec ''A B C D E'' = Some ''C D E''
   \<and> length (str_split (dict_get (title (example_metadata\<lparr>title := Some ''A B C''\<rparr>)) [])) \<le> 3
   \<and> create_thumbnail env_echo (example_metadata\<lparr>title := Some ''A B C''\<rparr>)
       = ([CreateThumbnail ''A B C'' None], Inr ''A B C/none'')"
proof -
  let ?short = "example_metadata\<lparr>title := Some ''A B C''\<rparr>"
  note T = thumbnail_subtitle [of env_echo example_metadata]
  note S = thumbnail_subtitle [of env_echo ?short]
  have a: "3 < length (str_split (dict_get (title example_metadata) []))"
    by (simp only: example_title str_split_ABCDE) simp
  have b: "length (str_split (dict_get (title ?short) [])) \<le> 3"
    by (simp only: short_title str_split_ABC) simp
  have s1: "subtitle_of example_metadata = Some ''C D E''"
    using T [THEN conjunct2, THEN conjunct2, THEN conjunct2, THEN conjunct2, THEN conjunct1]
    by (simp only: example_title)
  have "subtitle_of example_metadata = subtitle_spec (dict_get (title example_metadata) [])"
    using T [THEN conjunct2, THEN conjunct2, THEN conjunct2, THEN conjunct1] example_title_spaces
    by (simp only: example_title)
  then have s2: "subtitle_spec ''A B C D E'' = Some ''C D E''"
    by (simp only: example_title s1)
  have 1: "create_thumbnail env_echo example_metadata
       = ([CreateThumbnail ''A B C D E'' (Some ''C D E'')], Inr ''A B C D E/C D E'')"
    using T [THEN conjunct1] by (simp only: example_title s1 env_echo_renders)
  have n: "subtitle_of ?short = None"
    using S [THEN conjunct2, THEN conjunct2, THEN conjunct1] b by (rule mp)
  have 2: "create_thumbnail env_echo ?short = ([CreateThumbnail ''A B C'' None], Inr ''A B C/none'')"
    using S [THEN conjunct1] by (simp only: short_title n env_echo_renders)
  from a 1 s2 b 2 show ?thesis by (intro conjI)
qed

text \<open>
  Claim C6. \<open>_validate_metadata\<close>: a title longer than 60 characters becomes its
  first 57 characters followed by \<open>"..."\<close>, and a shorter one is kept, so the title has
  at most 60 characters; a description longer than 5000 characters becomes its first
  4997 followed by \<open>"..."\<close>, so it has at most 5000; the tags are cut to the first
  30; the hashtags are cut to the first 15 and each one that does not start with
  \<open>"#"\<close> gets \<open>"#"\<close> in front, so every hashtag kept starts with \<open>"#"\<close>.
\<close>

theorem validate_metadata_enforces:
  "(\<forall>t. title m = Some t \<longrightarrow>
        title (validate_metadata m) = Some (if length t > 60 then take 57 t @ ''...'' else t))
   \<and> (\<forall>t. title (validate_metadata m) = Some t \<longrightarrow> length t \<le> 60)
   \<and> (\<forall>d. description m = Some d \<longrightarrow>
        description (validate_metadata m) = Some (if length d > 5000 then take 4997 d @ ''...'' else d))
   \<and> (\<forall>d. description (validate_metadata m) = Some d \<longrightarrow> length d \<le> 5000)
   \<and> (\<forall>ts. tags m = Some ts \<longrightarrow> tags (validate_metadata m) = Some (take 30 ts))
   \<and> (\<forall>ts. tags (validate_metadata m) = Some ts \<longrightarrow> length ts \<le> 30)
   \<and> (\<forall>hs. hashtags m = Some hs \<longrightarrow>
        hashtags (validate_metadata m) =
          Some (map (\<lambda>tag. if startswith tag ''#'' then tag else ''#'' @ tag) (take 15 hs)))
   \<and> (\<forall>hs. hashtags (validate_metadata m) = Some hs \<longrightarrow>
        length hs \<le> 15 \<and> (\<forall>h \<in> set hs. startswith h ''#''))"
proof -
  have t: "title (validate_metadata m) =
      (case title m of None \<Rightarrow> None
       | Some t \<Rightarrow> Some (if length t > 60 then take 57 t @ ''...'' else t))"
    by (simp add: validate_metadata_def Let_def dict_get_def split: option.splits)
  have d: "description (validate_metadata m) =
      (case description m of None \<Rightarrow> None
       | Some d \<Rightarrow> Some (if length d > 5000 then take 4997 d @ ''...'' else d))"
    by (simp add: validate_metadata_def Let_def dict_get_def split: option.splits)
  have g: "tags (validate_metadata m) = map_option (take 30) (tags m)"
    by (simp add: validate_metadata_def Let_def dict_get_def split: option.splits)
  have h: "hashtags (validate_metadata m) =
      map_option (\<lambda>hs. map (\<lambda>tag. if startswith tag ''#'' then tag else ''#'' @ tag) (take 15 hs))
        (hashtags m)"
    by (simp add: validate_metadata_def Let_def dict_get_def hashtag_loop_map split: option.splits)
  show ?thesis
    unfolding t d g h
    by (auto simp: startswith_hash split: option.splits dest: in_set_takeD)
qed

text \<open>
  The theorem at metadata with a title of 70 characters, 31 tags and 16 hashtags, the
  first of them \<open>"tech"\<close>.
\<close>

theorem validate_metadata_enforces_witness:
  "title long_metadata = Some (replicate 70 CHR ''x'')
   \<and> title (validate_metadata long_metadata) = Some (replicate 57 CHR ''x'' @ ''...'')
   \<and> tags long_metadata = Some (replicate 31 ''tag'')
   \<and> tags (validate_metadata long_metadata) = Some (replicate 30 ''tag'')
   \<and> hashtags long_metadata = Some (''tech'' # replicate 15 ''#ai'')
   \<and> hashtags (validate_metadata long_metadata) = Some (''#tech'' # replicate 14 ''#ai'')"
  using validate_metadata_enforces [of long_metadata]
  by (simp add: long_metadata_def startswith_def)

section \<open>The claims about the orchestrator\<close>




text \<open>
  Claim C3 is about the run in which stages 1 to 3 return and the audio renderer raises
  \<open>RenderError("disk full")\<close>, with upload and email enabled. It expects four stage
  entries, the audio one with status \<open>'error'\<close>, and \<open>'audio_production'\<close> as the stage
  reported to the notifier. At that run the code raises the exception to the caller and
  saves a record with status \<open>'error'\<close> and \<open>error = 'disk full'\<close>, but the record has
  three stage entries and none for the audio stage, so \<open>_get_failed_stage\<close> finds no
  entry with status \<open>'error'\<close> in it and the stage reported to the notifier is
  \<open>'Unknown'\<close>.
\<close>

theorem audio_failure_evaluated:
  "snd (run env_disk_full (Some ''AI'') True True) = Inl (Exn ''RenderError'' ''disk full'')
   \<and> map stage_names (persisted (fst (run env_disk_full (Some ''AI'') True True)))
     = [[''content_generation'', ''seo_optimization'', ''thumbnail_creation'']]
   \<and> map status (persisted (fst (run env_disk_full (Some ''AI'') True True))) = [''error'']
   \<and> map error (persisted (fst (run env_disk_full (Some ''AI'') True True))) = [Some ''disk full'']
   \<and> map get_failed_stage (persisted (fst (run env_disk_full (Some ''AI'') True True))) = [''Unknown'']
   \<and> error_notifications (fst (run env_disk_full (Some ''AI'') True True))
     = [(''disk full'', ''Unknown'')]"
  using run_persisted_raises [OF stage_outcomes_env_disk_full, of True True]
  by (auto simp: stage_order_def get_failed_stage_def failed_stage_loop_unknown)

text \<open>
  The run in which stages 1 to 5 return and the uploader returns a failure, with upload
  and email enabled: the run returns a record, and that record, which is also the one
  saved, has status \<open>'success'\<close> and no \<open>error\<close> key.
\<close>

theorem publish_failure_counterexample:
  "map status (persisted (fst (run env_upload_fails (Some ''AI'') True True))) = [''success'']
   \<and> map error (persisted (fst (run env_upload_fails (Some ''AI'') True True))) = [None]
   \<and> \<not> isl (snd (run env_upload_fails (Some ''AI'') True True))
   \<and> status (projr (snd (run env_upload_fails (Some ''AI'') True True))) = ''success''
   \<and> error (projr (snd (run env_upload_fails (Some ''AI'') True True))) = None"
  using run_persisted_returns [OF stage_outcomes_env_upload_fails, of True True]
  by auto

text \<open>
  Claim C1, amended. When stages 1 to 5 return, \<open>upload\<close> is set and the result of the
  upload stage has a status other than \<open>'success'\<close> (the uploader returned such a result,
  or raised and \<open>_upload_to_youtube\<close> turned the exception into one): \<open>run\<close> returns a
  record and raises nothing; that record, the one saved, has status \<open>'success'\<close> and no
  \<open>error\<close> key; the failure is kept in the \<open>youtube_upload\<close> entry, which is the upload
  result itself; there are six stage entries and none for the email stage; and neither
  a success nor an error notification is sent.
\<close>

theorem publish_failure_recorded:
  assumes "stage_outcomes env t = Inr (sd, md, tp, ap, d, vp)"
    and "upload_status (snd (upload_to_youtube env vp md tp)) \<noteq> Some ''success''"
  shows "\<exists>r. snd (run env t True s) = Inr r \<and> persisted (fst (run env t True s)) = [r]
     \<and> status r = ''success'' \<and> error r = None
     \<and> stage_names r = take 6 stage_order
     \<and> map_of (stages r) ''youtube_upload'' = Some (UploadData (snd (upload_to_youtube env vp md tp)))
     \<and> map_of (stages r) ''email_notification'' = None
     \<and> success_notifications (fst (run env t True s)) = []
     \<and> error_notifications (fst (run env t True s)) = []"
  using run_persisted_returns [OF assms(1), of True s] assms(2)
  by (auto simp: stage_order_def stage_names_def base_stages_def)

text \<open>The theorem at the run whose uploader returns a failure.\<close>

theorem publish_failure_recorded_witness:
  "stage_outcomes env_upload_fails (Some ''AI'') =
     Inr (example_script, example_metadata\<lparr>thumbnail_text := Some ''A B''\<rparr>, ''thumb.png'',
          ''audio.mp3'', 300000, ''video.mp4'')
   \<and> upload_status (snd (upload_to_youtube env_upload_fails ''video.mp4''
        (example_metadata\<lparr>thumbnail_text := Some ''A B''\<rparr>) ''thumb.png'')) \<noteq> Some ''success''
   \<and> (\<exists>r. snd (run env_upload_fails (Some ''AI'') True True) = Inr r \<and> status r = ''success''
          \<and> error r = None \<and> map_of (stages r) ''email_notification'' = None)"
proof -
  have h: "upload_status (snd (upload_to_youtube env_upload_fails ''video.mp4''
        (example_metadata\<lparr>thumbnail_text := Some ''A B''\<rparr>) ''thumb.png'')) \<noteq> Some ''success''"
    by (simp add: upload_to_youtube_def env_upload_fails_def env_ok_def failed_upload_def)
  from publish_failure_recorded [OF stage_outcomes_env_upload_fails h, of True]
  show ?thesis using h stage_outcomes_env_upload_fails by blast
qed

text \<open>
  Claim C7. When stages 1 to 5 return and \<open>upload\<close> is not set: \<open>run\<close> returns a record
  with status \<open>'success'\<close>, the one saved; its \<open>youtube_upload\<close> entry has status
  \<open>'skipped'\<close>; it has no \<open>email_notification\<close> entry; and the notifier's success
  notification is not called.
\<close>

theorem skipped_publish:
  assumes "stage_outcomes env t = Inr (sd, md, tp, ap, d, vp)"
  shows "\<exists>r. snd (run env t False s) = Inr r \<and> persisted (fst (run env t False s)) = [r]
     \<and> status r = ''success''
     \<and> (\<exists>x. map_of (stages r) ''youtube_upload'' = Some x \<and> stage_status x = Some ''skipped'')
     \<and> map_of (stages r) ''email_notification'' = None
     \<and> ''email_notification'' \<notin> set (stage_names r)
     \<and> success_notifications (fst (run env t False s)) = []"
  using run_persisted_returns [OF assms(1), of False s]
  by (auto simp: stage_names_def base_stages_def)

text \<open>The theorem at the run in which every collaborator returns.\<close>

theorem skipped_publish_witness:
  "\<exists>r. snd (run env_ok (Some ''AI'') False True) = Inr r \<and> status r = ''success''
     \<and> (\<exists>x. map_of (stages r) ''youtube_upload'' = Some x \<and> stage_status x = Some ''skipped'')
     \<and> success_notifications (fst (run env_ok (Some ''AI'') False True)) = []"
  using skipped_publish [OF stage_outcomes_env_ok, of True] by blast

text \<open>
  Claim C10. Every run hands exactly one record to \<open>_save_results\<close>. That record has an
  \<open>end_time\<close>, and its status is \<open>'success'\<close> or \<open>'error'\<close>. With status \<open>'success'\<close> it
  has a \<open>duration_seconds\<close> and is the record the run returns; with status \<open>'error'\<close> it
  has no \<open>duration_seconds\<close> and the run raises.
\<close>

theorem persisted_record_fields:
  "\<exists>r. persisted (fst (run env t u s)) = [r] \<and> end_time r \<noteq> None
     \<and> (status r = ''success'' \<or> status r = ''error'')
     \<and> (status r = ''success'' \<longrightarrow> duration_seconds r \<noteq> None \<and> snd (run env t u s) = Inr r)
     \<and> (status r = ''error'' \<longrightarrow> duration_seconds r = None \<and> isl (snd (run env t u s)))"
proof -
  consider k e where "stage_outcomes env t = Inl (k, e)"
    | sd md tp ap d vp where "stage_outcomes env t = Inr (sd, md, tp, ap, d, vp)"
    using stage_outcomes_cases [of env t] by blast
  then show ?thesis
  proof cases
    case 1
    from run_persisted_raises [OF 1, of u s] show ?thesis by auto
  next
    case 2
    from run_persisted_returns [OF 2, of u s] show ?thesis by auto
  qed
qed

text \<open>The theorem at a run that returns and at a run that raises.\<close>

theorem persisted_record_fields_witness:
  "(\<exists>r. persisted (fst (run env_ok (Some ''AI'') True True)) = [r] \<and> status r = ''success''
        \<and> end_time r \<noteq> None \<and> duration_seconds r \<noteq> None)
   \<and> (\<exists>r. persisted (fst (run env_disk_full (Some ''AI'') True True)) = [r] \<and> status r = ''error''
        \<and> end_time r \<noteq> None \<and> duration_seconds r = None)"
proof -
  have a: "\<not> isl (snd (run env_ok (Some ''AI'') True True))"
    using run_persisted_returns [OF stage_outcomes_env_ok, of True True] by auto
  have b: "isl (snd (run env_disk_full (Some ''AI'') True True))"
    using run_persisted_raises [OF stage_outcomes_env_disk_full, of True True] by auto
  from persisted_record_fields [of env_ok "Some ''AI''" True True] a
  have 1: "\<exists>r. persisted (fst (run env_ok (Some ''AI'') True True)) = [r] \<and> status r = ''success''
        \<and> end_time r \<noteq> None \<and> duration_seconds r \<noteq> None"
    by blast
  from persisted_record_fields [of env_disk_full "Some ''AI''" True True] b
  have 2: "\<exists>r. persisted (fst (run env_disk_full (Some ''AI'') True True)) = [r] \<and> status r = ''error''
        \<and> end_time r \<noteq> None \<and> duration_seconds r = None"
    by (metis sum.disc(2))
  from 1 2 show ?thesis by blast
qed

section \<open>The claims about notification\<close>

text \<open>
  Claim C8. In a run with \<open>send_email\<close> set that raises \<open>e\<close> to its caller: \<open>e\<close> is
  the exception of the first failing stage of stages 1 to 5, and the error notification
  was attempted once, with the message \<open>str(e)\<close>. Whatever the notifier does when it is
  called (\<open>f\<close> is any behaviour: delivering, failing to deliver, raising), the run makes
  the same calls, saves the same record and raises the same \<open>e\<close>: what the notifier
  raises never leaves \<open>run\<close>.
\<close>

theorem error_notification_swallowed:
  assumes "snd (run env t u True) = Inl e"
  shows "run (env\<lparr>send_error_notification := f\<rparr>) t u True = run env t u True
     \<and> snd (run (env\<lparr>send_error_notification := f\<rparr>) t u True) = Inl e
     \<and> (\<exists>k. stage_outcomes env t = Inl (k, e))
     \<and> (\<exists>stage. error_notifications (fst (run env t u True)) = [(exn_str e, stage)])"
proof -
  consider k e' where "stage_outcomes env t = Inl (k, e')"
    | sd md tp ap d vp where "stage_outcomes env t = Inr (sd, md, tp, ap, d, vp)"
    using stage_outcomes_cases [of env t] by blast
  then show ?thesis
  proof cases
    case 1
    from run_persisted_raises [OF 1, of u True] assms have "e' = e" by auto
    with 1 run_persisted_raises [OF 1, of u True] assms show ?thesis
      by (auto simp: run_error_notifier)
  next
    case 2
    from run_persisted_returns [OF 2, of u True] assms show ?thesis by auto
  qed
qed

text \<open>
  The theorem at the run whose audio renderer finds the disk full, with a notifier that
  raises.
\<close>

theorem error_notification_swallowed_witness:
  "snd (run env_disk_full (Some ''AI'') True True) = Inl (Exn ''RenderError'' ''disk full'')
   \<and> snd (run (env_disk_full\<lparr>send_error_notification :=
              (\<lambda>msg stage. Inl (Exn ''SMTPException'' ''connection refused''))\<rparr>)
            (Some ''AI'') True True) = Inl (Exn ''RenderError'' ''disk full'')"
proof -
  have h: "snd (run env_disk_full (Some ''AI'') True True) = Inl (Exn ''RenderError'' ''disk full'')"
    using run_persisted_raises [OF stage_outcomes_env_disk_full, of True True] by auto
  from error_notification_swallowed [OF h] h show ?thesis by blast
qed

text \<open>
  Claim C9. In every run, for the record the run saves or returns: when it has an
  \<open>email_notification\<close> entry, the status of that entry is \<open>'success'\<close>. Whatever the
  notifier does when it is asked to send the success email (\<open>f\<close> is any behaviour:
  delivering, failing to deliver, raising), the run and its record are the same, so the
  entry says \<open>'success'\<close> whether or not the email was delivered.
\<close>

theorem email_stage_status:
  assumes "r \<in> set (persisted (fst (run env t u s))) \<or> snd (run env t u s) = Inr r"
    and "map_of (stages r) ''email_notification'' = Some x"
  shows "stage_status x = Some ''success''
     \<and> run (env\<lparr>send_success_notification := f\<rparr>) t u s = run env t u s"
proof -
  consider k e where "stage_outcomes env t = Inl (k, e)"
    | sd md tp ap d vp where "stage_outcomes env t = Inr (sd, md, tp, ap, d, vp)"
    using stage_outcomes_cases [of env t] by blast
  then have "stage_status x = Some ''success''"
  proof cases
    case 1
    from run_persisted_raises [OF 1, of u s] obtain r' where
      R: "persisted (fst (run env t u s)) = [r']" "snd (run env t u s) = Inl e"
        "stage_names r' = take (k - 1) stage_order" "k \<le> 5"
      by blast
    from assms(1) R(1,2) have "r = r'" by auto
    moreover from R(3) have "fst ` set (stages r') = set (take (k - 1) stage_order)"
      unfolding stage_names_def by (metis list.set_map)
    ultimately have "''email_notification'' \<notin> fst ` set (stages r)"
      using R(4) no_late_stage [of k] by simp
    then have "map_of (stages r) ''email_notification'' = None"
      by (simp add: map_of_eq_None_iff)
    with assms(2) show ?thesis by simp
  next
    case 2
    from run_persisted_returns [OF 2, of u s] assms show ?thesis
      by (auto simp: base_stages_def split: if_splits)
  qed
  then show ?thesis by (simp add: run_success_notifier)
qed

text \<open>
  The theorem at a run in which the notifier reports that the email was not delivered.
\<close>

theorem email_stage_status_witness:
  "send_success_notification env_email_fails example_upload
      (example_metadata\<lparr>thumbnail_text := Some ''A B''\<rparr>) = Inr False
   \<and> (\<exists>r x. snd (run env_email_fails (Some ''AI'') True True) = Inr r
         \<and> map_of (stages r) ''email_notification'' = Some x
         \<and> stage_status x = Some ''success'')"
proof -
  have u: "upload_status (snd (upload_to_youtube env_email_fails ''video.mp4''
        (example_metadata\<lparr>thumbnail_text := Some ''A B''\<rparr>) ''thumb.png'')) = Some ''success''"
    by (simp add: upload_to_youtube_def env_email_fails_def env_ok_def example_upload_def)
  from run_persisted_returns [OF stage_outcomes_env_email_fails, of True True] u
  obtain r where r: "snd (run env_email_fails (Some ''AI'') True True) = Inr r"
    and m: "map_of (stages r) ''email_notification'' = Some EmailData"
    by (auto simp: base_stages_def)
  from email_stage_status [OF disjI2 [OF r] m]
  have "stage_status EmailData = Some ''success''" by simp
  moreover have "send_success_notification env_email_fails example_upload
      (example_metadata\<lparr>thumbnail_text := Some ''A B''\<rparr>) = Inr False"
    by (simp add: env_email_fails_def)
  ultimately show ?thesis using r m by blast
qed

end
